theory Spec2Isabelle
  imports Main "HOL-Library.AList" "HOL-Library.Char_ord" "HOL-Library.List_Lexorder"
begin

section \<open>Values, tables and data frames\<close>

text \<open>
  The values that travel between PostgreSQL and Python in \<^verbatim>\<open>etl.py\<close>: SQL NULL (Python
  \<^verbatim>\<open>None\<close>), integers, text and timestamps (Python \<^verbatim>\<open>datetime\<close>, counted here in
  microseconds). Integers are those of a database column, within 64 bits. Floating-point
  columns are outside the model.
\<close>

datatype val = VNone | VInt int | VStr string | VTime int

text \<open>
  Python truth value, as used by \<^verbatim>\<open>if last_timestamp\<close> and \<^verbatim>\<open>if not value\<close>:
  \<^verbatim>\<open>None\<close>, \<^verbatim>\<open>0\<close> and \<^verbatim>\<open>''\<close> are false, every \<^verbatim>\<open>datetime\<close> is true.
\<close>

fun truthy :: "val \<Rightarrow> bool" where
  "truthy VNone = False"
| "truthy (VInt n) = (n \<noteq> 0)"
| "truthy (VStr s) = (s \<noteq> [])"
| "truthy (VTime t) = True"

type_synonym row = "val list"

record table =
  columns :: "string list"
  rows :: "row list"

type_synonym database = "(string \<times> table) list"

text \<open>
  Column names and rows: the shape of what a cursor returns (its description and the tuples
  of \<^verbatim>\<open>fetchall\<close>) and of the frame that \<^verbatim>\<open>pd.DataFrame(data, columns=columns)\<close> makes
  of it.
\<close>

record data_frame =
  df_columns :: "string list"
  df_data :: "row list"

text \<open>\<^verbatim>\<open>df.empty\<close>: true when any axis has length 0.\<close>

definition df_empty :: "data_frame \<Rightarrow> bool" where
  "df_empty df = (df_columns df = [] \<or> df_data df = [])"

section \<open>The world the script runs in\<close>

text \<open>
  Every call that leaves the process is recorded in \<open>calls\<close>, in the order it is made. A call
  may fail for reasons outside the databases' contents (network, time-out, a constraint): the
  schedule \<open>faults\<close> holds one flag for each coming external call, \<open>True\<close> meaning that the
  call raises; an exhausted schedule means no further fault.
\<close>

datatype call =
    Create_engine
  | Connect
  | Select_max string string
  | Select_all string
  | Select_newer string string val
  | To_sql string nat

text \<open>The lines written through \<^verbatim>\<open>logging\<close>; the text of a caught exception is left out.\<close>

datatype log_entry =
    Env_not_set string
  | Connect_error
  | Engine_error
  | Latest_error string
  | Fetch_error string
  | Copy_error string
  | Processing string
  | No_new_data string
  | Copied nat string
  | Max_after_copy string string val

record world =
  source_db :: database
  dest_db :: database
  faults :: "bool list"
  calls :: "call list"
  log :: "log_entry list"

text \<open>
  \<^verbatim>\<open>sys.exit(1)\<close> ends the process: \<open>Exit\<close> carries the exit status and the world as the
  process leaves it. \<open>Raise\<close> is an exception of class \<^verbatim>\<open>Exception\<close> coming out of a
  library call.
\<close>

datatype 'a outcome = Exit int world | Return 'a world

datatype 'a attempt = Raise world | Ok 'a world

definition faulty :: "world \<Rightarrow> bool" where
  "faulty w = (case faults w of [] \<Rightarrow> False | f # fs \<Rightarrow> f)"

definition called :: "call \<Rightarrow> world \<Rightarrow> world" where
  "called c w = w\<lparr>faults := drop 1 (faults w), calls := calls w @ [c]\<rparr>"

definition logged :: "log_entry \<Rightarrow> world \<Rightarrow> world" where
  "logged e w = w\<lparr>log := log w @ [e]\<rparr>"

section \<open>The SQL statements the script issues\<close>

fun position :: "string \<Rightarrow> string list \<Rightarrow> nat option" where
  "position c [] = None"
| "position c (x # xs) = (if x = c then Some 0 else map_option Suc (position c xs))"

definition cell :: "row \<Rightarrow> nat \<Rightarrow> val" where
  "cell r i = (if i < length r then r ! i else VNone)"

text \<open>
  \<open>sql_gt a b\<close> is the SQL condition \<^verbatim>\<open>a > b\<close> as a \<^verbatim>\<open>WHERE\<close> clause sees it: a comparison
  with NULL is unknown and selects nothing, values of different types are rejected by the
  database (\<open>None\<close>).
\<close>

fun sql_gt :: "val \<Rightarrow> val \<Rightarrow> bool option" where
  "sql_gt VNone b = Some False"
| "sql_gt a VNone = Some False"
| "sql_gt (VInt a) (VInt b) = Some (b < a)"
| "sql_gt (VStr a) (VStr b) = Some (b < a)"
| "sql_gt (VTime a) (VTime b) = Some (b < a)"
| "sql_gt a b = None"

text \<open>\<^verbatim>\<open>MAX\<close> ignores NULL cells and is NULL when nothing else is there.\<close>

fun sql_max :: "val \<Rightarrow> val list \<Rightarrow> val option" where
  "sql_max acc [] = Some acc"
| "sql_max acc (v # vs) =
     (if v = VNone then sql_max acc vs
      else if acc = VNone then sql_max v vs
      else (case sql_gt v acc of
              None \<Rightarrow> None
            | Some b \<Rightarrow> sql_max (if b then v else acc) vs))"

fun sql_where_gt :: "nat \<Rightarrow> val \<Rightarrow> row list \<Rightarrow> row list option" where
  "sql_where_gt i v [] = Some []"
| "sql_where_gt i v (r # rs) =
     (case sql_gt (cell r i) v of
        None \<Rightarrow> None
      | Some b \<Rightarrow>
          (case sql_where_gt i v rs of
             None \<Rightarrow> None
           | Some out \<Rightarrow> Some (if b then r # out else out)))"

text \<open>
  What each statement computes from a database, \<open>None\<close> when the database rejects it (a
  missing table or column, a comparison between different types).
\<close>

definition sql_select_max :: "database \<Rightarrow> string \<Rightarrow> string \<Rightarrow> val option" where
  "sql_select_max db table_name timestamp_column =
     (case map_of db table_name of
        None \<Rightarrow> None
      | Some tb \<Rightarrow>
          (case position timestamp_column (columns tb) of
             None \<Rightarrow> None
           | Some i \<Rightarrow> sql_max VNone (map (\<lambda>r. cell r i) (rows tb))))"

definition sql_select_all :: "database \<Rightarrow> string \<Rightarrow> data_frame option" where
  "sql_select_all db table_name =
     (case map_of db table_name of
        None \<Rightarrow> None
      | Some tb \<Rightarrow> Some \<lparr>df_columns = columns tb, df_data = rows tb\<rparr>)"

definition sql_select_newer :: "database \<Rightarrow> string \<Rightarrow> string \<Rightarrow> val \<Rightarrow> data_frame option" where
  "sql_select_newer db table_name timestamp_column last_timestamp =
     (case map_of db table_name of
        None \<Rightarrow> None
      | Some tb \<Rightarrow>
          (case position timestamp_column (columns tb) of
             None \<Rightarrow> None
           | Some i \<Rightarrow>
               (case sql_where_gt i last_timestamp (rows tb) of
                  None \<Rightarrow> None
                | Some out \<Rightarrow> Some \<lparr>df_columns = columns tb, df_data = out\<rparr>)))"

text \<open>
  \<^verbatim>\<open>df.to_sql(table_name, engine, if_exists='append', index=False)\<close>: pandas creates a
  missing table from the frame; otherwise the rows are inserted by column name, a column of
  the table that the frame lacks is NULL, and a column of the frame that the table lacks is
  rejected. The insert is one transaction: when it raises, nothing is written.
\<close>

definition align :: "string list \<Rightarrow> string list \<Rightarrow> row \<Rightarrow> row" where
  "align src dst r =
     map (\<lambda>c. case position c src of None \<Rightarrow> VNone | Some i \<Rightarrow> cell r i) dst"

definition sql_append :: "database \<Rightarrow> string \<Rightarrow> data_frame \<Rightarrow> database option" where
  "sql_append db table_name df =
     (case map_of db table_name of
        None \<Rightarrow> Some (db @ [(table_name, \<lparr>columns = df_columns df, rows = df_data df\<rparr>)])
      | Some tb \<Rightarrow>
          if set (df_columns df) \<subseteq> set (columns tb)
          then Some (AList.update table_name
                 (tb\<lparr>rows := rows tb @ map (align (df_columns df) (columns tb)) (df_data df)\<rparr>)
                 db)
          else None)"

text \<open>
  \<^verbatim>\<open>get_latest_timestamp\<close> writes the two names into the text of its statement as they
  are, without quotes: \<^verbatim>\<open>text(f"SELECT MAX({timestamp_column}) FROM {table_name}")\<close>.
  PostgreSQL reads an unquoted name in lower case, so the statement asks for the table and
  the column of the folded names. A string that is not an identifier (a letter or an
  underscore, then letters, digits, underscores and dollar signs) makes another statement
  of the text; the model has the database reject it. Key words used as names are outside
  the model. The fetch (\<^verbatim>\<open>sql.Identifier\<close>) and \<^verbatim>\<open>to_sql\<close> quote the names, which then
  stand for themselves.
\<close>

definition lower :: "char \<Rightarrow> char" where
  "lower x = (if CHR ''A'' \<le> x \<and> x \<le> CHR ''Z'' then char_of (of_char x + (32::nat)) else x)"

definition identifier_start :: "char \<Rightarrow> bool" where
  "identifier_start x =
     (CHR ''a'' \<le> x \<and> x \<le> CHR ''z'' \<or> CHR ''A'' \<le> x \<and> x \<le> CHR ''Z'' \<or> x = CHR ''_''
      \<or> (128::nat) \<le> of_char x)"

definition identifier_part :: "char \<Rightarrow> bool" where
  "identifier_part x =
     (identifier_start x \<or> CHR ''0'' \<le> x \<and> x \<le> CHR ''9'' \<or> x = CHR 0x24)"

definition unquoted :: "string \<Rightarrow> string option" where
  "unquoted name =
     (case name of
        [] \<Rightarrow> None
      | x # xs \<Rightarrow>
          if identifier_start x \<and> list_all identifier_part xs then Some (map lower name)
          else None)"

definition text_select_max :: "database \<Rightarrow> string \<Rightarrow> string \<Rightarrow> val option" where
  "text_select_max db table_name timestamp_column =
     (case unquoted table_name of
        None \<Rightarrow> None
      | Some t \<Rightarrow>
          (case unquoted timestamp_column of
             None \<Rightarrow> None
           | Some c \<Rightarrow> sql_select_max db t c))"

text \<open>\<^verbatim>\<open>SELECT MAX(timestamp_column) FROM table_name\<close> on the destination.\<close>

definition select_max :: "world \<Rightarrow> string \<Rightarrow> string \<Rightarrow> val attempt" where
  "select_max w table_name timestamp_column =
     (let w1 = called (Select_max table_name timestamp_column) w in
      if faulty w then Raise w1
      else (case text_select_max (dest_db w) table_name timestamp_column of
              None \<Rightarrow> Raise w1
            | Some v \<Rightarrow> Ok v w1))"

text \<open>
  \<^verbatim>\<open>SELECT * FROM table_name\<close> on the source. The value is what the cursor holds, the
  column names of its description and the tuples of \<^verbatim>\<open>fetchall\<close>, before pandas sees them.
\<close>

definition select_all :: "world \<Rightarrow> string \<Rightarrow> data_frame attempt" where
  "select_all w table_name =
     (let w1 = called (Select_all table_name) w in
      if faulty w then Raise w1
      else (case sql_select_all (source_db w) table_name of
              None \<Rightarrow> Raise w1
            | Some df \<Rightarrow> Ok df w1))"

text \<open>\<^verbatim>\<open>SELECT * FROM table_name WHERE timestamp_column > %s\<close> on the source.\<close>

definition select_newer :: "world \<Rightarrow> string \<Rightarrow> string \<Rightarrow> val \<Rightarrow> data_frame attempt" where
  "select_newer w table_name timestamp_column last_timestamp =
     (let w1 = called (Select_newer table_name timestamp_column last_timestamp) w in
      if faulty w then Raise w1
      else (case sql_select_newer (source_db w) table_name timestamp_column last_timestamp of
              None \<Rightarrow> Raise w1
            | Some df \<Rightarrow> Ok df w1))"

definition to_sql :: "world \<Rightarrow> string \<Rightarrow> data_frame \<Rightarrow> unit attempt" where
  "to_sql w table_name df =
     (let w1 = called (To_sql table_name (length (df_data df))) w in
      if faulty w then Raise w1
      else (case sql_append (dest_db w) table_name df of
              None \<Rightarrow> Raise w1
            | Some db \<Rightarrow> Ok () (w1\<lparr>dest_db := db\<rparr>)))"

section \<open>The frame that pandas builds\<close>

text \<open>
  \<^verbatim>\<open>pd.DataFrame(data, columns=columns)\<close> gives every column one type. A column of
  integers in which a NULL occurs becomes a column of 64-bit floating-point numbers, the NULL
  being NaN, and \<^verbatim>\<open>to_sql\<close> writes the floating-point values back (NaN as NULL). An integer
  comes out of this as the nearest number that has 53 significant bits, ties going to the
  even one: every integer up to \<open>2 ^ 53\<close> in magnitude is unchanged, a larger one may not be.
  Columns of integers without a NULL, of timestamps and of text keep their values.
\<close>

function excess :: "nat \<Rightarrow> nat" where
  "excess m = (if m < 2 ^ 53 then 0 else Suc (excess (m div 2)))"
  by pat_completeness auto
termination
  by (relation "measure id") auto

definition float64_of_int :: "int \<Rightarrow> int" where
  "float64_of_int n =
     (let m = nat \<bar>n\<bar>; k = excess m in
      if k = 0 then n
      else (let q = m div 2 ^ k; r = m mod 2 ^ k; h = 2 ^ (k - 1);
                q' = (if h < r \<or> (r = h \<and> odd q) then q + 1 else q)
            in sgn n * int (q' * 2 ^ k)))"

fun as_float :: "val \<Rightarrow> val" where
  "as_float (VInt n) = VInt (float64_of_int n)"
| "as_float v = v"

fun is_int :: "val \<Rightarrow> bool" where
  "is_int (VInt n) = True"
| "is_int v = False"

definition float_column :: "val list \<Rightarrow> bool" where
  "float_column vs =
     (list_ex (\<lambda>v. v = VNone) vs \<and> list_ex is_int vs \<and> list_all (\<lambda>v. v = VNone \<or> is_int v) vs)"

definition DataFrame :: "row list \<Rightarrow> string list \<Rightarrow> data_frame" where
  "DataFrame data cols =
     \<lparr>df_columns = cols,
      df_data =
        map (\<lambda>r. map (\<lambda>(j, x). if float_column (map (\<lambda>r. cell r j) data) then as_float x else x)
                    (enumerate 0 r))
          data\<rparr>"

section \<open>The functions of etl.py\<close>

text \<open>\<^verbatim>\<open>get_env_var\<close>: \<^verbatim>\<open>if not value\<close> holds for an unset and for an empty variable.\<close>

definition get_env_var :: "(string \<Rightarrow> string option) \<Rightarrow> string \<Rightarrow> world \<Rightarrow> string outcome" where
  "get_env_var env var_name w =
     (case env var_name of
        None \<Rightarrow> Exit 1 (logged (Env_not_set var_name) w)
      | Some v \<Rightarrow> if v = [] then Exit 1 (logged (Env_not_set var_name) w) else Return v w)"

fun and_then :: "'a outcome \<Rightarrow> ('a \<Rightarrow> world \<Rightarrow> 'b outcome) \<Rightarrow> 'b outcome" where
  "and_then (Exit c w) f = Exit c w"
| "and_then (Return x w) f = f x w"

record db_params =
  host :: string
  database :: string
  user :: string
  password :: string
  port :: string

text \<open>The module-level assignments of \<^verbatim>\<open>SOURCE_DB_PARAMS\<close> and \<^verbatim>\<open>DEST_DB_URL\<close>, in order.\<close>

definition settings :: "(string \<Rightarrow> string option) \<Rightarrow> world \<Rightarrow> (db_params \<times> string) outcome" where
  "settings env w =
     and_then (get_env_var env ''SOURCE_DB_HOST'' w) (\<lambda>h w.
     and_then (get_env_var env ''SOURCE_DB_NAME'' w) (\<lambda>d w.
     and_then (get_env_var env ''SOURCE_DB_USER'' w) (\<lambda>u w.
     and_then (get_env_var env ''SOURCE_DB_PASSWORD'' w) (\<lambda>p w.
     and_then (get_env_var env ''SOURCE_DB_PORT'' w) (\<lambda>q w.
     and_then (get_env_var env ''DEST_DB_URL'' w) (\<lambda>url w.
       Return (\<lparr>host = h, database = d, user = u, password = p, port = q\<rparr>, url) w))))))"

definition connect_to_postgres :: "world \<Rightarrow> unit outcome" where
  "connect_to_postgres w =
     (let w1 = called Connect w in
      if faulty w then Exit 1 (logged Connect_error w1) else Return () w1)"

definition create_engine_for_other_postgres :: "world \<Rightarrow> unit outcome" where
  "create_engine_for_other_postgres w =
     (let w1 = called Create_engine w in
      if faulty w then Exit 1 (logged Engine_error w1) else Return () w1)"

definition get_latest_timestamp :: "world \<Rightarrow> string \<Rightarrow> string \<Rightarrow> val outcome" where
  "get_latest_timestamp w table_name timestamp_column =
     (case select_max w table_name timestamp_column of
        Ok v w1 \<Rightarrow> Return v w1
      | Raise w1 \<Rightarrow> Exit 1 (logged (Latest_error table_name) w1))"

text \<open>
  \<^verbatim>\<open>fetch_incremental_data\<close>: the statement is chosen by the truth value of
  \<^verbatim>\<open>last_timestamp\<close>, and what the cursor returns goes through \<^verbatim>\<open>pd.DataFrame\<close>.
\<close>

definition fetch_incremental_data ::
    "world \<Rightarrow> string \<Rightarrow> string \<Rightarrow> val \<Rightarrow> data_frame outcome" where
  "fetch_incremental_data w table_name timestamp_column last_timestamp =
     (case (if truthy last_timestamp
            then select_newer w table_name timestamp_column last_timestamp
            else select_all w table_name) of
        Ok cur w1 \<Rightarrow> Return (DataFrame (df_data cur) (df_columns cur)) w1
      | Raise w1 \<Rightarrow> Exit 1 (logged (Fetch_error table_name) w1))"

text \<open>
  \<^verbatim>\<open>copy_data_to_other_postgres\<close>. Both ways out of the function are a bare return, so the
  value is \<^verbatim>\<open>None\<close>. The \<^verbatim>\<open>sys.exit\<close> inside \<^verbatim>\<open>get_latest_timestamp\<close> raises
  \<^verbatim>\<open>SystemExit\<close>, which is not an \<^verbatim>\<open>Exception\<close>: the handler of this function does not
  catch it and the process ends.
\<close>

definition copy_data_to_other_postgres ::
    "world \<Rightarrow> data_frame \<Rightarrow> string \<Rightarrow> string \<Rightarrow> val outcome" where
  "copy_data_to_other_postgres w df table_name timestamp_column =
     (if df_empty df then Return VNone (logged (No_new_data table_name) w)
      else (let row_count = length (df_data df) in
            case to_sql w table_name df of
              Raise w1 \<Rightarrow> Exit 1 (logged (Copy_error table_name) w1)
            | Ok u w1 \<Rightarrow>
                and_then
                  (get_latest_timestamp (logged (Copied row_count table_name) w1)
                     table_name timestamp_column)
                  (\<lambda>max_timestamp w2.
                     Return VNone
                       (logged (Max_after_copy timestamp_column table_name max_timestamp) w2))))"

text \<open>The body of the loop of \<^verbatim>\<open>main\<close>, for one table.\<close>

definition process_table :: "world \<Rightarrow> string \<Rightarrow> string \<Rightarrow> val outcome" where
  "process_table w table_name timestamp_column =
     and_then (get_latest_timestamp (logged (Processing table_name) w) table_name timestamp_column)
       (\<lambda>last_timestamp w1.
     and_then (fetch_incremental_data w1 table_name timestamp_column last_timestamp)
       (\<lambda>df w2.
     copy_data_to_other_postgres w2 df table_name timestamp_column))"

fun main_loop :: "world \<Rightarrow> string list \<Rightarrow> string \<Rightarrow> val outcome" where
  "main_loop w [] timestamp_column = Return VNone w"
| "main_loop w (table_name # tables) timestamp_column =
     and_then (process_table w table_name timestamp_column)
       (\<lambda>r w1. main_loop w1 tables timestamp_column)"

definition main :: "world \<Rightarrow> string list \<Rightarrow> string \<Rightarrow> val outcome" where
  "main w tables timestamp_column =
     and_then (create_engine_for_other_postgres w) (\<lambda>dest_engine w1.
     and_then (connect_to_postgres w1) (\<lambda>source_conn w2.
       main_loop w2 tables timestamp_column))"

text \<open>
  The script from its first line: the settings are read while the module is loaded, and
  \<^verbatim>\<open>main\<close> is called after that.
\<close>

definition program ::
    "(string \<Rightarrow> string option) \<Rightarrow> world \<Rightarrow> string list \<Rightarrow> string \<Rightarrow> val outcome" where
  "program env w tables timestamp_column =
     and_then (settings env w) (\<lambda>cfg w1. main w1 tables timestamp_column)"

definition script :: "(string \<Rightarrow> string option) \<Rightarrow> world \<Rightarrow> val outcome" where
  "script env w = program env w [''dht_mq_ldr'', ''multi_sensor_weather_data''] ''timestamp''"

section \<open>Reading an outcome\<close>

fun exit_status :: "'a outcome \<Rightarrow> int option" where
  "exit_status (Exit c w) = Some c"
| "exit_status (Return x w) = None"

fun returned :: "'a outcome \<Rightarrow> 'a option" where
  "returned (Exit c w) = None"
| "returned (Return x w) = Some x"

fun final :: "'a outcome \<Rightarrow> world" where
  "final (Exit c w) = w"
| "final (Return x w) = w"

definition row_count :: "database \<Rightarrow> string \<Rightarrow> nat" where
  "row_count db table_name = (case map_of db table_name of None \<Rightarrow> 0 | Some tb \<Rightarrow> length (rows tb))"

definition required_settings :: "string list" where
  "required_settings =
     [''SOURCE_DB_HOST'', ''SOURCE_DB_NAME'', ''SOURCE_DB_USER'', ''SOURCE_DB_PASSWORD'',
      ''SOURCE_DB_PORT'', ''DEST_DB_URL'']"

section \<open>The order of the calls\<close>

fun is_fetch :: "string \<Rightarrow> string \<Rightarrow> call \<Rightarrow> bool" where
  "is_fetch t c (Select_all t') = (t' = t)"
| "is_fetch t c (Select_newer t' c' v) = (t' = t \<and> c' = c)"
| "is_fetch t c other = False"

definition fetch_call :: "val \<Rightarrow> string \<Rightarrow> string \<Rightarrow> call" where
  "fetch_call v t c = (if truthy v then Select_newer t c v else Select_all t)"

text \<open>
  The calls of a completed loop over the tables, told from the two databases as the loop
  finds them: for each table in turn the watermark query and the fetch that the watermark
  asks for; then, when the frame of the fetched rows is empty, nothing more for this table;
  and when it is not, the insert of exactly its rows followed by the second watermark
  query, the next table finding the destination with these rows in it.
\<close>

fun calls_of_run :: "database \<Rightarrow> database \<Rightarrow> string list \<Rightarrow> string \<Rightarrow> call list" where
  "calls_of_run src dst [] c = []"
| "calls_of_run src dst (t # ts) c =
     (case text_select_max dst t c of
        None \<Rightarrow> []
      | Some v \<Rightarrow>
          (case (if truthy v then sql_select_newer src t c v else sql_select_all src t) of
             None \<Rightarrow> []
           | Some cur \<Rightarrow>
               [Select_max t c, fetch_call v t c] @
               (if df_empty (DataFrame (df_data cur) (df_columns cur))
                then calls_of_run src dst ts c
                else [To_sql t (length (df_data cur)), Select_max t c] @
                     (case sql_append dst t (DataFrame (df_data cur) (df_columns cur)) of
                        None \<Rightarrow> []
                      | Some dst' \<Rightarrow> calls_of_run src dst' ts c))))"

text \<open>
  The calls as the specification orders them: resolve, fetch, load, verify for every table,
  where loading an empty batch sends nothing but the verifying query still follows.
\<close>

fun every_step :: "string list \<Rightarrow> string \<Rightarrow> call list \<Rightarrow> bool" where
  "every_step [] c cs = (cs = [])"
| "every_step (t # ts) c (r # f # To_sql t' n # v # cs) =
     (r = Select_max t c \<and> is_fetch t c f \<and> t' = t \<and> v = Select_max t c
      \<and> every_step ts c cs)"
| "every_step (t # ts) c (r # f # v # cs) =
     (r = Select_max t c \<and> is_fetch t c f \<and> v = Select_max t c \<and> every_step ts c cs)"
| "every_step (t # ts) c cs = False"




definition float_exact :: "row list \<Rightarrow> bool" where
  "float_exact data = list_all (list_all (\<lambda>x. as_float x = x)) data"

section \<open>Example data\<close>

definition readings :: table where
  "readings = \<lparr>columns = [''id'', ''timestamp''],
               rows = [[VInt 1, VTime 10], [VInt 2, VTime 20]]\<rparr>"

definition no_rows :: table where
  "no_rows = \<lparr>columns = [''id'', ''timestamp''], rows = []\<rparr>"

text \<open>Three configured tables; the source has lost the second one.\<close>

definition three_tables :: world where
  "three_tables =
     \<lparr>source_db = [(''a'', readings), (''c'', readings)],
      dest_db = [(''a'', no_rows), (''b'', no_rows), (''c'', no_rows)],
      faults = [], calls = [], log = []\<rparr>"

text \<open>A table whose timestamp column counts seconds from 0.\<close>

definition epoch :: table where
  "epoch = \<lparr>columns = [''id'', ''timestamp''],
            rows = [[VInt 1, VInt 0], [VInt 2, VInt 5]]\<rparr>"

definition epoch_world :: world where
  "epoch_world =
     \<lparr>source_db = [(''t'', epoch)],
      dest_db = [(''t'', epoch\<lparr>rows := [[VInt 1, VInt 0]]\<rparr>)],
      faults = [], calls = [], log = []\<rparr>"

definition one_table :: world where
  "one_table =
     \<lparr>source_db = [(''t'', readings)], dest_db = [(''t'', no_rows)],
      faults = [], calls = [], log = []\<rparr>"

definition full_env :: "string \<Rightarrow> string option" where
  "full_env = (\<lambda>v. if v \<in> set required_settings then Some ''x'' else None)"

text \<open>The destination already holds every source row.\<close>

definition in_step :: world where
  "in_step =
     \<lparr>source_db = [(''t'', readings)], dest_db = [(''t'', readings)],
      faults = [], calls = [], log = []\<rparr>"

text \<open>A source row without a timestamp.\<close>

definition undated :: world where
  "undated =
     \<lparr>source_db = [(''t'', \<lparr>columns = [''id'', ''timestamp''], rows = [[VInt 1, VNone]]\<rparr>)],
      dest_db = [(''t'', no_rows)],
      faults = [], calls = [], log = []\<rparr>"

text \<open>The connection to the destination is lost after the insert.\<close>

definition flaky :: world where
  "flaky =
     \<lparr>source_db = [(''t'', readings)], dest_db = [(''t'', no_rows)],
      faults = [False, False, False, False, False, True], calls = [], log = []\<rparr>"

text \<open>A reading beyond 53 bits, in a column that also has a NULL.\<close>

definition gauge :: table where
  "gauge = \<lparr>columns = [''id'', ''timestamp'', ''reading''],
            rows = [[VInt 1, VTime 10, VInt 9007199254740993], [VInt 2, VTime 20, VNone]]\<rparr>"

definition gauge_world :: world where
  "gauge_world =
     \<lparr>source_db = [(''g'', gauge)], dest_db = [(''g'', gauge\<lparr>rows := []\<rparr>)],
      faults = [], calls = [], log = []\<rparr>"

text \<open>
  The destination knows no table \<open>x\<close>, the source no table \<open>b\<close>, and the destination's
  table \<open>m\<close> lacks a column of the source's.
\<close>

definition failures :: world where
  "failures =
     \<lparr>source_db = [(''a'', readings), (''x'', readings), (''m'', readings)],
      dest_db = [(''a'', no_rows), (''b'', no_rows),
                 (''m'', \<lparr>columns = [''timestamp''], rows = []\<rparr>)],
      faults = [], calls = [], log = []\<rparr>"

definition empty_frame :: data_frame where
  "empty_frame = \<lparr>df_columns = [''id'', ''timestamp''], df_data = []\<rparr>"

definition two_rows :: data_frame where
  "two_rows = \<lparr>df_columns = [''id'', ''timestamp''],
               df_data = [[VInt 1, VTime 10], [VInt 2, VTime 20]]\<rparr>"

section \<open>Facts shared by the proofs\<close>

lemmas world_defs = faulty_def called_def logged_def

lemmas sql_defs = sql_select_max_def sql_select_all_def sql_select_newer_def sql_append_def
  align_def cell_def text_select_max_def unquoted_def identifier_start_def identifier_part_def
  lower_def

lemmas etl_defs = get_env_var_def settings_def connect_to_postgres_def
  create_engine_for_other_postgres_def get_latest_timestamp_def fetch_incremental_data_def
  copy_data_to_other_postgres_def process_table_def main_def program_def script_def
  select_max_def select_all_def select_newer_def to_sql_def df_empty_def
  DataFrame_def float_column_def float64_of_int_def

lemmas example_defs = readings_def no_rows_def three_tables_def epoch_def epoch_world_def
  one_table_def full_env_def required_settings_def in_step_def undated_def flaky_def
  empty_frame_def two_rows_def gauge_def gauge_world_def failures_def

lemma and_then_Return_iff:
  "and_then m f = Return x w \<longleftrightarrow> (\<exists>y w1. m = Return y w1 \<and> f y w1 = Return x w)"
  by (cases m) auto

lemma and_then_Exit_iff:
  "and_then m f = Exit c w \<longleftrightarrow> m = Exit c w \<or> (\<exists>y w1. m = Return y w1 \<and> f y w1 = Exit c w)"
  by (cases m) auto

lemma main_loop_append:
  "main_loop w (xs @ ys) c = and_then (main_loop w xs c) (\<lambda>r w1. main_loop w1 ys c)"
proof (induction xs arbitrary: w)
  case Nil
  show ?case by simp
next
  case (Cons t xs)
  show ?case
    by (cases "process_table w t c") (simp_all add: Cons.IH)
qed

lemma called_fields [simp]:
  "source_db (called k w) = source_db w"
  "dest_db (called k w) = dest_db w"
  "calls (called k w) = calls w @ [k]"
  "log (called k w) = log w"
  "faults (called k w) = drop 1 (faults w)"
  by (simp_all add: called_def)

lemma logged_fields [simp]:
  "source_db (logged e w) = source_db w"
  "dest_db (logged e w) = dest_db w"
  "calls (logged e w) = calls w"
  "log (logged e w) = log w @ [e]"
  "faults (logged e w) = faults w"
  "faulty (logged e w) = faulty w"
  by (simp_all add: logged_def faulty_def)

lemma DataFrame_fields [simp]:
  "df_columns (DataFrame data cols) = cols"
  "length (df_data (DataFrame data cols)) = length data"
  by (simp_all add: DataFrame_def)

lemma df_empty_DataFrame [simp]:
  "df_empty (DataFrame data cols) \<longleftrightarrow> cols = [] \<or> data = []"
  by (simp add: df_empty_def DataFrame_def)

text \<open>What a step that raises leaves behind.\<close>

lemma select_max_Raise:
  "select_max w t c = Raise w' \<Longrightarrow> w' = called (Select_max t c) w"
  by (auto simp: select_max_def Let_def split: if_splits option.splits)

lemma select_max_Ok:
  "select_max w t c = Ok v w' \<Longrightarrow> w' = called (Select_max t c) w"
  by (auto simp: select_max_def Let_def split: if_splits option.splits)

lemma select_rows_Raise:
  "(if truthy v then select_newer w t c v else select_all w t) = Raise w' \<Longrightarrow>
     w' = called (fetch_call v t c) w"
  by (auto simp: select_newer_def select_all_def fetch_call_def Let_def
      split: if_splits option.splits)

lemma select_rows_Ok:
  "(if truthy v then select_newer w t c v else select_all w t) = Ok cur w' \<Longrightarrow>
     w' = called (fetch_call v t c) w"
  by (auto simp: select_newer_def select_all_def fetch_call_def Let_def
      split: if_splits option.splits)

lemma to_sql_Raise_world:
  "to_sql w t df = Raise w' \<Longrightarrow> w' = called (To_sql t (length (df_data df))) w"
  by (auto simp: to_sql_def Let_def split: if_splits option.splits)

section \<open>C1: a failing table\<close>

text \<open>
  C1 as the specification states it: when resolving the watermark, fetching or loading fails
  for one table, that table is recorded as failed and every remaining table of the list is
  still processed in the same run. The code does not do that. With three configured tables
  of which the second is missing in the source, the run copies the first table, logs the
  fetch error of the second and leaves with exit status 1: no statement is ever issued for
  the third table, whose two source rows stay uncopied.
\<close>

theorem later_tables_not_processed:
  "exit_status (main three_tables [''a'', ''b'', ''c''] ''timestamp'') = Some 1
   \<and> calls (final (main three_tables [''a'', ''b'', ''c''] ''timestamp'')) =
       [Create_engine, Connect,
        Select_max ''a'' ''timestamp'', Select_all ''a'', To_sql ''a'' 2,
        Select_max ''a'' ''timestamp'',
        Select_max ''b'' ''timestamp'', Select_all ''b'']
   \<and> sql_select_all (source_db three_tables) ''c'' =
       Some \<lparr>df_columns = columns readings, df_data = rows readings\<rparr>
   \<and> row_count (dest_db (final (main three_tables [''a'', ''b'', ''c''] ''timestamp''))) ''c'' = 0"
  by (simp add: example_defs etl_defs sql_defs world_defs row_count_def Let_def)

text \<open>
  C1 as amended: when the tables before \<open>t\<close> have been processed and one of the three steps
  fails for \<open>t\<close> (the watermark query raises; or it answers and the fetch raises; or both
  answer, the frame is not empty and the insert raises), the run ends there with exit status
  1, whatever tables follow \<open>t\<close> in the list: they are not processed. The error of the
  failing step is the last line of the log, after the line that announced the table; the
  destination is as the tables before \<open>t\<close> left it, so what they copied is kept and the
  failing table has written nothing; and the calls made for \<open>t\<close> end with the one that
  raised.
\<close>

theorem failure_ends_the_run:
  assumes "main w before c = Return r w1"
  shows "(select_max (logged (Processing t) w1) t c = Raise w2 \<longrightarrow>
            main w (before @ t # rest) c = Exit 1 (logged (Latest_error t) w2)
            \<and> dest_db w2 = dest_db w1
            \<and> log (logged (Latest_error t) w2) = log w1 @ [Processing t, Latest_error t]
            \<and> calls w2 = calls w1 @ [Select_max t c])
    \<and> (select_max (logged (Processing t) w1) t c = Ok v wa \<longrightarrow>
        (if truthy v then select_newer wa t c v else select_all wa t) = Raise w2 \<longrightarrow>
            main w (before @ t # rest) c = Exit 1 (logged (Fetch_error t) w2)
            \<and> dest_db w2 = dest_db w1
            \<and> log (logged (Fetch_error t) w2) = log w1 @ [Processing t, Fetch_error t]
            \<and> calls w2 = calls w1 @ [Select_max t c, fetch_call v t c])
    \<and> (select_max (logged (Processing t) w1) t c = Ok v wa \<longrightarrow>
        (if truthy v then select_newer wa t c v else select_all wa t) = Ok cur wb \<longrightarrow>
        \<not> df_empty (DataFrame (df_data cur) (df_columns cur)) \<longrightarrow>
        to_sql wb t (DataFrame (df_data cur) (df_columns cur)) = Raise w2 \<longrightarrow>
            main w (before @ t # rest) c = Exit 1 (logged (Copy_error t) w2)
            \<and> dest_db w2 = dest_db w1
            \<and> log (logged (Copy_error t) w2) = log w1 @ [Processing t, Copy_error t]
            \<and> calls w2 = calls w1 @ [Select_max t c, fetch_call v t c, To_sql t (length (df_data cur))])"
proof -
  from assms obtain u1 wa' u2 wb' where
    a: "create_engine_for_other_postgres w = Return u1 wa'"
    and b: "connect_to_postgres wa' = Return u2 wb'"
    and l: "main_loop wb' before c = Return r w1"
    by (auto simp: main_def and_then_Return_iff)
  have run: "main w (before @ t # rest) c = Exit code w'"
    if "process_table w1 t c = Exit code w'" for code w'
    using a b l that by (simp add: main_def main_loop_append)
  have resolve: "main w (before @ t # rest) c = Exit 1 (logged (Latest_error t) w2)
      \<and> dest_db w2 = dest_db w1
      \<and> log (logged (Latest_error t) w2) = log w1 @ [Processing t, Latest_error t]
      \<and> calls w2 = calls w1 @ [Select_max t c]"
    if r: "select_max (logged (Processing t) w1) t c = Raise w2"
  proof -
    from r have "process_table w1 t c = Exit 1 (logged (Latest_error t) w2)"
      by (simp add: process_table_def get_latest_timestamp_def)
    from run [OF this] select_max_Raise [OF r] show ?thesis by simp
  qed
  have fetch: "main w (before @ t # rest) c = Exit 1 (logged (Fetch_error t) w2)
      \<and> dest_db w2 = dest_db w1
      \<and> log (logged (Fetch_error t) w2) = log w1 @ [Processing t, Fetch_error t]
      \<and> calls w2 = calls w1 @ [Select_max t c, fetch_call v t c]"
    if r: "select_max (logged (Processing t) w1) t c = Ok v wa"
      and f: "(if truthy v then select_newer wa t c v else select_all wa t) = Raise w2"
  proof -
    from r f have "process_table w1 t c = Exit 1 (logged (Fetch_error t) w2)"
      by (simp add: process_table_def get_latest_timestamp_def fetch_incremental_data_def)
    from run [OF this] select_max_Ok [OF r] select_rows_Raise [OF f] show ?thesis by simp
  qed
  have load: "main w (before @ t # rest) c = Exit 1 (logged (Copy_error t) w2)
      \<and> dest_db w2 = dest_db w1
      \<and> log (logged (Copy_error t) w2) = log w1 @ [Processing t, Copy_error t]
      \<and> calls w2 = calls w1 @ [Select_max t c, fetch_call v t c, To_sql t (length (df_data cur))]"
    if r: "select_max (logged (Processing t) w1) t c = Ok v wa"
      and f: "(if truthy v then select_newer wa t c v else select_all wa t) = Ok cur wb"
      and e: "\<not> df_empty (DataFrame (df_data cur) (df_columns cur))"
      and s: "to_sql wb t (DataFrame (df_data cur) (df_columns cur)) = Raise w2"
  proof -
    from r f e s have "process_table w1 t c = Exit 1 (logged (Copy_error t) w2)"
      by (simp add: process_table_def get_latest_timestamp_def fetch_incremental_data_def
          copy_data_to_other_postgres_def)
    from run [OF this] select_max_Ok [OF r] select_rows_Ok [OF f] to_sql_Raise_world [OF s]
    show ?thesis by simp
  qed
  from resolve fetch load show ?thesis by blast
qed

text \<open>
  The amended C1 at a run whose first table \<open>a\<close> is copied: the destination has no table
  \<open>x\<close> (the watermark query raises), the source has no table \<open>b\<close> (the fetch raises), and
  the destination's table \<open>m\<close> lacks a column (the insert raises). Each time the run ends
  with exit status 1 and the error as the last line of the log, and the two rows of \<open>a\<close>
  stay copied.
\<close>

theorem failure_ends_the_run_witness:
  "returned (main failures [''a''] ''timestamp'') = Some VNone
   \<and> main failures ([''a''] @ ''x'' # [''m'']) ''timestamp''
       = Exit 1 (logged (Latest_error ''x'')
           (called (Select_max ''x'' ''timestamp'')
             (logged (Processing ''x'') (final (main failures [''a''] ''timestamp'')))))
   \<and> exit_status (main failures ([''a''] @ ''b'' # [''m'']) ''timestamp'') = Some 1
   \<and> log (final (main failures ([''a''] @ ''b'' # [''m'']) ''timestamp''))
       = [Processing ''a'', Copied 2 ''a'', Max_after_copy ''timestamp'' ''a'' (VTime 20),
          Processing ''b'', Fetch_error ''b'']
   \<and> exit_status (main failures ([''a''] @ ''m'' # [''x'']) ''timestamp'') = Some 1
   \<and> log (final (main failures ([''a''] @ ''m'' # [''x'']) ''timestamp''))
       = [Processing ''a'', Copied 2 ''a'', Max_after_copy ''timestamp'' ''a'' (VTime 20),
          Processing ''m'', Copy_error ''m'']
   \<and> row_count (dest_db (final (main failures ([''a''] @ ''m'' # [''x'']) ''timestamp''))) ''a'' = 2"
proof -
  define w1 where "w1 = final (main failures [''a''] ''timestamp'')"
  have a: "main failures [''a''] ''timestamp'' = Return VNone w1"
    unfolding w1_def by (simp add: example_defs etl_defs sql_defs world_defs Let_def)
  have w1: "dest_db w1 = [(''a'', readings), (''b'', no_rows),
                (''m'', \<lparr>columns = [''timestamp''], rows = []\<rparr>)]"
    "source_db w1 = source_db failures" "faults w1 = []"
    "log w1 = [Processing ''a'', Copied 2 ''a'', Max_after_copy ''timestamp'' ''a'' (VTime 20)]"
    unfolding w1_def by (simp_all add: example_defs etl_defs sql_defs world_defs Let_def)
  note step = failure_ends_the_run [OF a]
  \<comment> \<open>the watermark query raises\<close>
  define wx where "wx = called (Select_max ''x'' ''timestamp'') (logged (Processing ''x'') w1)"
  have hx: "select_max (logged (Processing ''x'') w1) ''x'' ''timestamp'' = Raise wx"
    unfolding wx_def by (simp add: select_max_def w1 sql_defs world_defs Let_def)
  from step [where t = "''x''" and ?w2.0 = wx and rest = "[''m'']"] hx
  have x: "main failures ([''a''] @ ''x'' # [''m'']) ''timestamp''
      = Exit 1 (logged (Latest_error ''x'') wx)"
    by blast
  \<comment> \<open>the fetch raises\<close>
  define wa where "wa = called (Select_max ''b'' ''timestamp'') (logged (Processing ''b'') w1)"
  define wf where "wf = called (Select_all ''b'') wa"
  have hb1: "select_max (logged (Processing ''b'') w1) ''b'' ''timestamp'' = Ok VNone wa"
    unfolding wa_def
    by (simp add: select_max_def w1 sql_defs world_defs no_rows_def Let_def)
  have hb2: "(if truthy VNone then select_newer wa ''b'' ''timestamp'' VNone
              else select_all wa ''b'') = Raise wf"
    unfolding wf_def wa_def
    by (simp add: select_all_def w1 sql_defs world_defs failures_def Let_def)
  from step [where t = "''b''" and v = VNone and wa = wa and ?w2.0 = wf and rest = "[''m'']"]
    hb1 hb2
  have b: "main failures ([''a''] @ ''b'' # [''m'']) ''timestamp''
      = Exit 1 (logged (Fetch_error ''b'') wf)"
    and bl: "log (logged (Fetch_error ''b'') wf) = log w1 @ [Processing ''b'', Fetch_error ''b'']"
    by blast+
  \<comment> \<open>the insert raises\<close>
  define wm where "wm = called (Select_max ''m'' ''timestamp'') (logged (Processing ''m'') w1)"
  define wn where "wn = called (Select_all ''m'') wm"
  define wo where "wo = called (To_sql ''m'' 2) wn"
  let ?cur = "\<lparr>df_columns = columns readings, df_data = rows readings\<rparr>"
  have hm1: "select_max (logged (Processing ''m'') w1) ''m'' ''timestamp'' = Ok VNone wm"
    unfolding wm_def
    by (simp add: select_max_def w1 sql_defs world_defs Let_def)
  have hm2: "(if truthy VNone then select_newer wm ''m'' ''timestamp'' VNone
              else select_all wm ''m'') = Ok ?cur wn"
    unfolding wn_def wm_def
    by (simp add: select_all_def w1 sql_defs world_defs failures_def Let_def)
  have hm3: "\<not> df_empty (DataFrame (df_data ?cur) (df_columns ?cur))"
    by (simp add: readings_def)
  have hm4: "to_sql wn ''m'' (DataFrame (df_data ?cur) (df_columns ?cur)) = Raise wo"
    unfolding wo_def wn_def wm_def
    by (simp add: to_sql_def w1 sql_defs world_defs readings_def Let_def)
  from step [where t = "''m''" and v = VNone and wa = wm and cur = ?cur and wb = wn
      and ?w2.0 = wo and rest = "[''x'']"] hm1 hm2 hm3 hm4
  have m: "main failures ([''a''] @ ''m'' # [''x'']) ''timestamp''
      = Exit 1 (logged (Copy_error ''m'') wo)"
    and ml: "log (logged (Copy_error ''m'') wo) = log w1 @ [Processing ''m'', Copy_error ''m'']"
    and md: "dest_db wo = dest_db w1"
    by blast+
  have rc: "row_count (dest_db w1) ''a'' = 2"
    by (simp add: w1 row_count_def readings_def)
  show ?thesis
    unfolding x b m a
    using bl ml md rc by (simp add: wx_def w1(4))
qed

section \<open>C9: missing settings\<close>

lemma settings_missing:
  assumes "v \<in> set required_settings" and "env v = None \<or> env v = Some []"
  shows "\<exists>u\<in>set required_settings. settings env w = Exit 1 (logged (Env_not_set u) w)"
  using assms
  by (auto simp: settings_def get_env_var_def required_settings_def split: option.splits)

text \<open>
  C9: when one of the six required settings (source host, database name, user, password,
  port, destination connection string) is missing (unset, or set to the empty string, which
  \<^verbatim>\<open>get_env_var\<close> treats alike), the program logs the variable and ends with exit status 1
  before anything is processed: no external call has been made, and both databases are as
  they were.
\<close>

theorem missing_setting_stops_before_any_table:
  assumes "v \<in> set required_settings" and "env v = None \<or> env v = Some []"
  shows "exit_status (program env w tables c) = Some 1
    \<and> calls (final (program env w tables c)) = calls w
    \<and> source_db (final (program env w tables c)) = source_db w
    \<and> dest_db (final (program env w tables c)) = dest_db w
    \<and> (\<exists>u\<in>set required_settings. log (final (program env w tables c)) = log w @ [Env_not_set u])"
proof -
  from settings_missing [of v env w] assms obtain u where u: "u \<in> set required_settings"
    and s: "settings env w = Exit 1 (logged (Env_not_set u) w)" by blast
  have "program env w tables c = Exit 1 (logged (Env_not_set u) w)"
    by (simp add: program_def s)
  with u show ?thesis by (auto simp: logged_def)
qed

text \<open>C9 at an environment that lacks the source port only.\<close>

theorem missing_setting_stops_before_any_table_witness:
  "''SOURCE_DB_PORT'' \<in> set required_settings
   \<and> (full_env(''SOURCE_DB_PORT'' := None)) ''SOURCE_DB_PORT'' = None
   \<and> exit_status (program (full_env(''SOURCE_DB_PORT'' := None)) one_table [''t''] ''timestamp'') = Some 1
   \<and> calls (final (program (full_env(''SOURCE_DB_PORT'' := None)) one_table [''t''] ''timestamp'')) = []
   \<and> dest_db (final (program (full_env(''SOURCE_DB_PORT'' := None)) one_table [''t''] ''timestamp''))
       = [(''t'', no_rows)]"
proof -
  have a: "''SOURCE_DB_PORT'' \<in> set required_settings" by (simp add: required_settings_def)
  have b: "(full_env(''SOURCE_DB_PORT'' := None)) ''SOURCE_DB_PORT'' = None
     \<or> (full_env(''SOURCE_DB_PORT'' := None)) ''SOURCE_DB_PORT'' = Some []" by simp
  from missing_setting_stops_before_any_table
    [of "''SOURCE_DB_PORT''" "full_env(''SOURCE_DB_PORT'' := None)" one_table "[''t'']" "''timestamp''"]
    a b
  show ?thesis by (simp add: one_table_def)
qed

section \<open>C10 and C2: the test on the watermark\<close>

text \<open>
  C10: the fetch chooses its statement by the truth value of the watermark, so with a
  watermark that Python counts as false (the number 0, the empty string) it does exactly
  what it does with no watermark at all: it issues the unfiltered \<^verbatim>\<open>SELECT\<close> and
  returns the frame of every row of the source table.
\<close>

theorem falsy_watermark_is_full_copy:
  assumes "\<not> truthy v"
  shows "fetch_incremental_data w t c v = fetch_incremental_data w t c VNone
    \<and> (\<not> faulty w \<longrightarrow> sql_select_all (source_db w) t = Some df \<longrightarrow>
         fetch_incremental_data w t c v
           = Return (DataFrame (df_data df) (df_columns df)) (called (Select_all t) w))"
  using assms by (simp add: fetch_incremental_data_def select_all_def Let_def)

text \<open>
  C10 at a watermark of 0: the destination's maximum is 0, and the fetch returns both source
  rows, the one already copied included.
\<close>

theorem falsy_watermark_is_full_copy_witness:
  "\<not> truthy (VInt 0) \<and> \<not> faulty epoch_world
   \<and> sql_select_max (dest_db epoch_world) ''t'' ''timestamp'' = Some (VInt 0)
   \<and> sql_select_all (source_db epoch_world) ''t''
       = Some \<lparr>df_columns = columns epoch, df_data = rows epoch\<rparr>
   \<and> fetch_incremental_data epoch_world ''t'' ''timestamp'' (VInt 0)
       = Return \<lparr>df_columns = columns epoch, df_data = rows epoch\<rparr>
           (called (Select_all ''t'') epoch_world)"
proof -
  have a: "\<not> truthy (VInt 0)" by simp
  have b: "\<not> faulty epoch_world" by (simp add: epoch_world_def faulty_def)
  have c: "sql_select_all (source_db epoch_world) ''t''
      = Some \<lparr>df_columns = columns epoch, df_data = rows epoch\<rparr>"
    by (simp add: epoch_world_def sql_select_all_def)
  have d: "sql_select_max (dest_db epoch_world) ''t'' ''timestamp'' = Some (VInt 0)"
    by (simp add: epoch_world_def epoch_def sql_select_max_def cell_def)
  have f: "DataFrame (rows epoch) (columns epoch)
      = \<lparr>df_columns = columns epoch, df_data = rows epoch\<rparr>"
    by (simp add: epoch_def DataFrame_def float_column_def cell_def)
  from falsy_watermark_is_full_copy
    [OF a, of epoch_world "''t''" "''timestamp''"
       "\<lparr>df_columns = columns epoch, df_data = rows epoch\<rparr>"] b c
  have "fetch_incremental_data epoch_world ''t'' ''timestamp'' (VInt 0)
      = Return (DataFrame (df_data \<lparr>df_columns = columns epoch, df_data = rows epoch\<rparr>)
                  (df_columns \<lparr>df_columns = columns epoch, df_data = rows epoch\<rparr>))
          (called (Select_all ''t'') epoch_world)"
    by blast
  then have e: "fetch_incremental_data epoch_world ''t'' ''timestamp'' (VInt 0)
      = Return \<lparr>df_columns = columns epoch, df_data = rows epoch\<rparr>
          (called (Select_all ''t'') epoch_world)"
    by (simp add: f)
  from a b c d e show ?thesis by (intro conjI)
qed

text \<open>
  C2 states that with a present watermark \<open>w\<close> the fetch returns exactly the rows whose
  timestamp is strictly greater than \<open>w\<close>, so that a row at the watermark is never copied
  again. The code misses the case of a present watermark that is false in Python: with the
  destination's maximum at 0, the fetch returns the row whose timestamp is 0 as well (the
  filtered statement would have returned the other row only), and the run inserts that row
  a second time.
\<close>

theorem zero_watermark_copies_boundary_row_again:
  "sql_select_max (dest_db epoch_world) ''t'' ''timestamp'' = Some (VInt 0)
   \<and> returned (fetch_incremental_data epoch_world ''t'' ''timestamp'' (VInt 0))
       = Some \<lparr>df_columns = [''id'', ''timestamp''],
               df_data = [[VInt 1, VInt 0], [VInt 2, VInt 5]]\<rparr>
   \<and> map_of (dest_db (final (main epoch_world [''t''] ''timestamp''))) ''t''
       = Some \<lparr>columns = [''id'', ''timestamp''],
               rows = [[VInt 1, VInt 0], [VInt 1, VInt 0], [VInt 2, VInt 5]]\<rparr>"
  by (simp add: example_defs etl_defs sql_defs world_defs Let_def)

section \<open>What each function does to the world\<close>

lemma get_latest_timestamp_Return:
  "get_latest_timestamp w t c = Return v w' \<longleftrightarrow>
     \<not> faulty w \<and> text_select_max (dest_db w) t c = Some v \<and> w' = called (Select_max t c) w"
  by (auto simp: get_latest_timestamp_def select_max_def Let_def split: option.splits)


lemma fetch_incremental_data_Return:
  "fetch_incremental_data w t c v = Return df w' \<longleftrightarrow>
     \<not> faulty w \<and>
     (\<exists>cur. (if truthy v then sql_select_newer (source_db w) t c v
              else sql_select_all (source_db w) t) = Some cur
            \<and> df = DataFrame (df_data cur) (df_columns cur))
     \<and> w' = called (fetch_call v t c) w"
  by (auto simp: fetch_incremental_data_def select_newer_def select_all_def fetch_call_def Let_def
      split: option.splits)

lemma is_fetch_fetch_call [simp]: "is_fetch t c (fetch_call v t c)"
  by (simp add: fetch_call_def)


lemma to_sql_Ok:
  "to_sql w t df = Ok u w' \<longleftrightarrow>
     \<not> faulty w \<and>
     (\<exists>db. sql_append (dest_db w) t df = Some db
           \<and> w' = (called (To_sql t (length (df_data df))) w)\<lparr>dest_db := db\<rparr>)"
  by (auto simp: to_sql_def Let_def split: option.splits)


lemma copy_data_Return:
  "copy_data_to_other_postgres w df t c = Return r w' \<longleftrightarrow>
     r = VNone \<and>
     (if df_empty df then w' = logged (No_new_data t) w
      else (\<exists>u w1 m w2. to_sql w t df = Ok u w1
             \<and> get_latest_timestamp (logged (Copied (length (df_data df)) t) w1) t c = Return m w2
             \<and> w' = logged (Max_after_copy c t m) w2))"
  by (auto simp: copy_data_to_other_postgres_def Let_def and_then_Return_iff split: attempt.splits)

lemma sql_append_row_count:
  assumes "sql_append db t df = Some db'"
  shows "row_count db' t = row_count db t + length (df_data df)"
  using assms
  by (auto simp: sql_append_def row_count_def update_conv' map_add_def
      split: option.splits if_splits)


section \<open>C5 and C6: what the load returns\<close>

text \<open>
  C5 as the specification states it: loading an empty batch is not an error, reports 0 rows
  written and leaves the destination table and its watermark unchanged. With an empty batch
  the function returns \<^verbatim>\<open>None\<close>, not 0; the only report is the log line that there is no
  new data.
\<close>

theorem empty_batch_returns_no_count:
  "returned (copy_data_to_other_postgres in_step empty_frame ''t'' ''timestamp'') = Some VNone
   \<and> returned (copy_data_to_other_postgres in_step empty_frame ''t'' ''timestamp'') \<noteq> Some (VInt 0)
   \<and> log (final (copy_data_to_other_postgres in_step empty_frame ''t'' ''timestamp''))
       = [No_new_data ''t'']"
  by (simp add: example_defs etl_defs sql_defs world_defs Let_def)

text \<open>
  C5 as amended: loading an empty batch is not an error; it writes the log line that there
  is no new data, returns \<^verbatim>\<open>None\<close>, makes no external call, and leaves the destination
  table and hence its watermark unchanged, under the name as it is and under the name as
  the watermark query reads it.
\<close>

theorem empty_batch_is_a_no_op:
  assumes "df_empty df"
  shows "copy_data_to_other_postgres w df t c = Return VNone (logged (No_new_data t) w)
    \<and> dest_db (final (copy_data_to_other_postgres w df t c)) = dest_db w
    \<and> sql_select_max (dest_db (final (copy_data_to_other_postgres w df t c))) t c
        = sql_select_max (dest_db w) t c
    \<and> text_select_max (dest_db (final (copy_data_to_other_postgres w df t c))) t c
        = text_select_max (dest_db w) t c
    \<and> calls (final (copy_data_to_other_postgres w df t c)) = calls w"
  using assms by (simp add: copy_data_to_other_postgres_def)

text \<open>The amended C5 at an empty frame, with a destination whose watermark is 20.\<close>

theorem empty_batch_is_a_no_op_witness:
  "df_empty empty_frame
   \<and> returned (copy_data_to_other_postgres in_step empty_frame ''t'' ''timestamp'') = Some VNone
   \<and> dest_db (final (copy_data_to_other_postgres in_step empty_frame ''t'' ''timestamp''))
       = dest_db in_step
   \<and> sql_select_max (dest_db (final (copy_data_to_other_postgres in_step empty_frame ''t'' ''timestamp'')))
         ''t'' ''timestamp'' = Some (VTime 20)"
proof -
  have a: "df_empty empty_frame" by (simp add: empty_frame_def df_empty_def)
  have b: "sql_select_max (dest_db in_step) ''t'' ''timestamp'' = Some (VTime 20)"
    by (simp add: in_step_def readings_def sql_select_max_def cell_def)
  from empty_batch_is_a_no_op [OF a, of in_step "''t''" "''timestamp''"] a b
  show ?thesis by simp
qed

text \<open>
  C6 as the specification states it: for every batch the load returns the number of rows
  written, an integer that is at least 0. With a batch of two rows the function writes both
  rows and returns \<^verbatim>\<open>None\<close>, not 2.
\<close>

theorem load_returns_no_count:
  "returned (copy_data_to_other_postgres one_table two_rows ''t'' ''timestamp'') = Some VNone
   \<and> returned (copy_data_to_other_postgres one_table two_rows ''t'' ''timestamp'') \<noteq> Some (VInt 2)
   \<and> row_count (dest_db (final (copy_data_to_other_postgres one_table two_rows ''t'' ''timestamp''))) ''t''
       = 2"
  by (simp add: example_defs etl_defs sql_defs world_defs row_count_def Let_def)

text \<open>
  C6 as amended: whenever the load returns, empty batch or not, its value is \<^verbatim>\<open>None\<close>.
  The number of rows written is not returned but logged: for a batch that is not empty the
  log gains the line with the row count, which is the length of the batch and at least 1,
  followed by the line with the new maximum, and the destination table has grown by that
  many rows; for an empty batch the log gains the no-new-data line and nothing is written.
\<close>

theorem load_returns_none_and_logs_the_count:
  assumes "copy_data_to_other_postgres w df t c = Return r w'"
  shows "r = VNone
    \<and> (if df_empty df
        then log w' = log w @ [No_new_data t] \<and> dest_db w' = dest_db w
        else 0 < length (df_data df)
          \<and> (\<exists>m. log w' = log w @ [Copied (length (df_data df)) t, Max_after_copy c t m])
          \<and> row_count (dest_db w') t = row_count (dest_db w) t + length (df_data df))"
proof (cases "df_empty df")
  case True
  with assms show ?thesis by (simp add: copy_data_Return)
next
  case False
  then have pos: "0 < length (df_data df)" by (simp add: df_empty_def)
  from assms False obtain db m where r: "r = VNone"
    and db: "sql_append (dest_db w) t df = Some db"
    and w': "w' = logged (Max_after_copy c t m)
        (called (Select_max t c)
          (logged (Copied (length (df_data df)) t)
            ((called (To_sql t (length (df_data df))) w)\<lparr>dest_db := db\<rparr>)))"
    by (auto simp: copy_data_Return to_sql_Ok get_latest_timestamp_Return)
  have "row_count (dest_db w') t = row_count (dest_db w) t + length (df_data df)"
    using sql_append_row_count [OF db] by (simp add: w')
  moreover have "log w' = log w @ [Copied (length (df_data df)) t, Max_after_copy c t m]"
    by (simp add: w' logged_def called_def)
  ultimately show ?thesis using False pos r by auto
qed

text \<open>The amended C6 at a batch of two rows and an empty destination table.\<close>

theorem load_returns_none_and_logs_the_count_witness:
  "returned (copy_data_to_other_postgres one_table two_rows ''t'' ''timestamp'') = Some VNone
   \<and> \<not> df_empty two_rows
   \<and> log (final (copy_data_to_other_postgres one_table two_rows ''t'' ''timestamp''))
       = [Copied 2 ''t'', Max_after_copy ''timestamp'' ''t'' (VTime 20)]
   \<and> row_count (dest_db (final (copy_data_to_other_postgres one_table two_rows ''t'' ''timestamp''))) ''t''
       = row_count (dest_db one_table) ''t'' + length (df_data two_rows)"
proof -
  define w' where "w' = final (copy_data_to_other_postgres one_table two_rows ''t'' ''timestamp'')"
  have a: "copy_data_to_other_postgres one_table two_rows ''t'' ''timestamp'' = Return VNone w'"
    unfolding w'_def by (simp add: example_defs etl_defs sql_defs world_defs Let_def)
  have b: "\<not> df_empty two_rows" by (simp add: two_rows_def df_empty_def)
  have c: "log w' = [Copied 2 ''t'', Max_after_copy ''timestamp'' ''t'' (VTime 20)]"
    unfolding w'_def by (simp add: example_defs etl_defs sql_defs world_defs Let_def)
  from load_returns_none_and_logs_the_count [OF a] b c
  show ?thesis unfolding a by simp
qed

lemma fetch_incremental_data_calls:
  assumes "fetch_incremental_data w t c v = Return df w'"
  shows "\<exists>f. is_fetch t c f \<and> calls w' = calls w @ [f]"
proof -
  from assms have "calls w' = calls w @ [fetch_call v t c]"
    by (simp add: fetch_incremental_data_Return)
  then show ?thesis using is_fetch_fetch_call by blast
qed

section \<open>C7: the query after the load\<close>

text \<open>
  C7 as the specification states it: the watermark is resolved at the start of a table's
  sync and resolved again at its end, and a failure of that second query is only logged: it
  neither turns the table's sync into a failure nor aborts the run. In the code the second
  query is \<^verbatim>\<open>get_latest_timestamp\<close> again, whose handler calls \<^verbatim>\<open>sys.exit(1)\<close>. With a
  destination that stops answering after the insert, both rows are in the destination and
  the run still ends with exit status 1.
\<close>

theorem failed_verification_exits:
  "exit_status (main flaky [''t''] ''timestamp'') = Some 1
   \<and> row_count (dest_db (final (main flaky [''t''] ''timestamp''))) ''t'' = 2
   \<and> log (final (main flaky [''t''] ''timestamp''))
       = [Processing ''t'', Copied 2 ''t'', Latest_error ''t'']"
  by (simp add: example_defs etl_defs sql_defs world_defs row_count_def Let_def)

text \<open>
  C7 as amended: the watermark is resolved at the start of a table's sync and, when the
  fetched batch is not empty and has been inserted, resolved again; when this second query
  fails, the error is logged and the whole run ends there with exit status 1, the inserted
  rows staying in the destination and the tables that follow left alone. The calls made for
  the table up to that point are the watermark query, the fetch, the insert and the second
  watermark query, in this order.
\<close>

theorem failed_verification_ends_the_run:
  assumes "get_latest_timestamp (logged (Processing t) w) t c = Return v w1"
    and "fetch_incremental_data w1 t c v = Return df w2"
    and "\<not> df_empty df"
    and "to_sql w2 t df = Ok u w3"
    and "select_max (logged (Copied (length (df_data df)) t) w3) t c = Raise w4"
  shows "main_loop w (t # rest) c = Exit 1 (logged (Latest_error t) w4)
    \<and> dest_db w4 = dest_db w3
    \<and> calls w4 = calls w3 @ [Select_max t c]
    \<and> (\<exists>f. is_fetch t c f \<and> calls w3 = calls w @ [Select_max t c, f, To_sql t (length (df_data df))])"
proof -
  have copy: "copy_data_to_other_postgres w2 df t c = Exit 1 (logged (Latest_error t) w4)"
    using assms(3-5)
    by (simp add: copy_data_to_other_postgres_def get_latest_timestamp_def Let_def)
  have run: "main_loop w (t # rest) c = Exit 1 (logged (Latest_error t) w4)"
    using assms(1,2) copy by (simp add: process_table_def)
  have w4: "w4 = called (Select_max t c) (logged (Copied (length (df_data df)) t) w3)"
    using assms(5) by (auto simp: select_max_def Let_def split: if_splits option.splits)
  have w1: "w1 = called (Select_max t c) (logged (Processing t) w)"
    using assms(1) by (simp add: get_latest_timestamp_Return)
  from fetch_incremental_data_calls [OF assms(2)]
  obtain f where f: "is_fetch t c f" and w2: "calls w2 = calls w1 @ [f]" by blast
  from assms(4) have w3: "calls w3 = calls w2 @ [To_sql t (length (df_data df))]"
    by (auto simp: to_sql_Ok)
  show ?thesis using run f by (auto simp: w4 w3 w2 w1)
qed

text \<open>The amended C7 when the fourth call of the loop is the one that fails.\<close>

theorem failed_verification_ends_the_run_witness:
  "exit_status (main_loop (flaky\<lparr>faults := [False, False, False, True]\<rparr>) [''t'', ''u''] ''timestamp'')
     = Some 1
   \<and> row_count (dest_db (final
        (main_loop (flaky\<lparr>faults := [False, False, False, True]\<rparr>) [''t'', ''u''] ''timestamp''))) ''t''
     = 2"
proof -
  define w where "w = flaky\<lparr>faults := [False, False, False, True]\<rparr>"
  define w1 where "w1 = called (Select_max ''t'' ''timestamp'') (logged (Processing ''t'') w)"
  define w2 where "w2 = called (Select_all ''t'') w1"
  define w3 where "w3 = (called (To_sql ''t'' 2) w2)\<lparr>dest_db := [(''t'', readings)]\<rparr>"
  define w4 where "w4 = called (Select_max ''t'' ''timestamp'') (logged (Copied 2 ''t'') w3)"
  have a: "get_latest_timestamp (logged (Processing ''t'') w) ''t'' ''timestamp'' = Return VNone w1"
    unfolding w1_def w_def by (simp add: example_defs etl_defs sql_defs world_defs Let_def)
  have b: "fetch_incremental_data w1 ''t'' ''timestamp'' VNone = Return two_rows w2"
    unfolding w2_def w1_def w_def by (simp add: example_defs etl_defs sql_defs world_defs Let_def)
  have c: "\<not> df_empty two_rows" by (simp add: two_rows_def df_empty_def)
  have d: "to_sql w2 ''t'' two_rows = Ok () w3"
    unfolding w3_def w2_def w1_def w_def
    by (simp add: example_defs etl_defs sql_defs world_defs Let_def)
  have e: "select_max (logged (Copied (length (df_data two_rows)) ''t'') w3) ''t'' ''timestamp''
      = Raise w4"
    unfolding w4_def w3_def w2_def w1_def w_def
    by (simp add: example_defs etl_defs sql_defs world_defs Let_def)
  from failed_verification_ends_the_run [OF a b c d e, of "[''u'']"]
  have r: "main_loop w [''t'', ''u''] ''timestamp'' = Exit 1 (logged (Latest_error ''t'') w4)"
    and k: "dest_db w4 = dest_db w3" by simp_all
  have "row_count (dest_db w3) ''t'' = 2"
    unfolding w3_def by (simp add: row_count_def readings_def)
  with r k show ?thesis unfolding w_def [symmetric] by simp
qed

section \<open>C8: the order of the steps\<close>


lemma position_None: "position c cols = None \<longleftrightarrow> c \<notin> set cols"
  by (induction cols) auto

lemma process_table_Return:
  "process_table w t c = Return r w' \<longleftrightarrow>
     (\<exists>v df w2. \<not> faulty w \<and> text_select_max (dest_db w) t c = Some v
        \<and> fetch_incremental_data (called (Select_max t c) (logged (Processing t) w)) t c v = Return df w2
        \<and> copy_data_to_other_postgres w2 df t c = Return r w')"
  by (auto simp: process_table_def and_then_Return_iff get_latest_timestamp_Return)

lemma copy_data_dest:
  assumes "copy_data_to_other_postgres w df t c = Return r w'"
  shows "if df_empty df then dest_db w' = dest_db w
         else sql_append (dest_db w) t df = Some (dest_db w')"
  using assms
  by (auto simp: copy_data_Return to_sql_Ok get_latest_timestamp_Return)

lemma copy_data_source:
  "copy_data_to_other_postgres w df t c = Return r w' \<Longrightarrow> source_db w' = source_db w"
  by (auto simp: copy_data_Return to_sql_Ok get_latest_timestamp_Return split: if_splits)

lemma copy_data_calls:
  assumes "copy_data_to_other_postgres w df t c = Return r w'"
  shows "calls w' = calls w @
    (if df_empty df then [] else [To_sql t (length (df_data df)), Select_max t c])"
  using assms
  by (auto simp: copy_data_Return to_sql_Ok get_latest_timestamp_Return)

lemma process_table_steps:
  assumes "process_table w t c = Return r w'"
  shows "\<exists>v cur. text_select_max (dest_db w) t c = Some v
    \<and> (if truthy v then sql_select_newer (source_db w) t c v
        else sql_select_all (source_db w) t) = Some cur
    \<and> source_db w' = source_db w
    \<and> (if df_empty (DataFrame (df_data cur) (df_columns cur))
        then dest_db w' = dest_db w
          \<and> calls w' = calls w @ [Select_max t c, fetch_call v t c]
        else sql_append (dest_db w) t (DataFrame (df_data cur) (df_columns cur)) = Some (dest_db w')
          \<and> calls w' = calls w @ [Select_max t c, fetch_call v t c,
                                  To_sql t (length (df_data cur)), Select_max t c])"
proof -
  let ?w1 = "called (Select_max t c) (logged (Processing t) w)"
  from assms obtain v df w2 where
    v: "text_select_max (dest_db w) t c = Some v"
    and f: "fetch_incremental_data ?w1 t c v = Return df w2"
    and d: "copy_data_to_other_postgres w2 df t c = Return r w'"
    by (auto simp: process_table_Return)
  from f have ex: "\<exists>cur. (if truthy v then sql_select_newer (source_db w) t c v
           else sql_select_all (source_db w) t) = Some cur
         \<and> df = DataFrame (df_data cur) (df_columns cur)"
    by (cases "truthy v") (simp_all add: fetch_incremental_data_Return)
  from f have w2: "w2 = called (fetch_call v t c) ?w1"
    by (simp add: fetch_incremental_data_Return)
  from ex obtain cur where
    cur: "(if truthy v then sql_select_newer (source_db w) t c v
           else sql_select_all (source_db w) t) = Some cur"
    and df: "df = DataFrame (df_data cur) (df_columns cur)"
    by blast
  from copy_data_source [OF d] w2 have s: "source_db w' = source_db w" by simp
  from copy_data_calls [OF d] w2 df
  have k: "calls w' = calls w @ [Select_max t c, fetch_call v t c] @
      (if df_empty (DataFrame (df_data cur) (df_columns cur)) then []
       else [To_sql t (length (df_data cur)), Select_max t c])"
    by simp
  from w2 have dw2: "dest_db w2 = dest_db w" by simp
  from copy_data_dest [OF d]
  have e: "if df_empty (DataFrame (df_data cur) (df_columns cur)) then dest_db w' = dest_db w
      else sql_append (dest_db w) t (DataFrame (df_data cur) (df_columns cur)) = Some (dest_db w')"
    unfolding df dw2 .
  show ?thesis
  proof (cases "df_empty (DataFrame (df_data cur) (df_columns cur))")
    case True
    with v cur s k e show ?thesis by (intro exI [of _ v] exI [of _ cur]) simp
  next
    case False
    with v cur s k e show ?thesis by (intro exI [of _ v] exI [of _ cur]) simp
  qed
qed

lemma main_loop_calls:
  "main_loop w ts c = Return r w' \<Longrightarrow>
     calls w' = calls w @ calls_of_run (source_db w) (dest_db w) ts c"
proof (induction ts arbitrary: w)
  case Nil
  then show ?case by simp
next
  case (Cons t ts)
  from Cons.prems obtain x w1 where p: "process_table w t c = Return x w1"
    and l: "main_loop w1 ts c = Return r w'"
    by (auto simp: and_then_Return_iff)
  from process_table_steps [OF p] obtain v cur where
    v: "text_select_max (dest_db w) t c = Some v"
    and cur: "(if truthy v then sql_select_newer (source_db w) t c v
               else sql_select_all (source_db w) t) = Some cur"
    and s: "source_db w1 = source_db w"
    and k: "if df_empty (DataFrame (df_data cur) (df_columns cur))
        then dest_db w1 = dest_db w
          \<and> calls w1 = calls w @ [Select_max t c, fetch_call v t c]
        else sql_append (dest_db w) t (DataFrame (df_data cur) (df_columns cur)) = Some (dest_db w1)
          \<and> calls w1 = calls w @ [Select_max t c, fetch_call v t c,
                                  To_sql t (length (df_data cur)), Select_max t c]"
    by blast
  note ih = Cons.IH [OF l]
  show ?case
  proof (cases "df_empty (DataFrame (df_data cur) (df_columns cur))")
    case True
    with k have "dest_db w1 = dest_db w"
      and "calls w1 = calls w @ [Select_max t c, fetch_call v t c]" by simp_all
    with ih s v cur True show ?thesis by simp
  next
    case False
    with k have "sql_append (dest_db w) t (DataFrame (df_data cur) (df_columns cur)) = Some (dest_db w1)"
      and "calls w1 = calls w @ [Select_max t c, fetch_call v t c,
                                To_sql t (length (df_data cur)), Select_max t c]" by simp_all
    with ih s v cur False show ?thesis by simp
  qed
qed

text \<open>
  C8 as the specification states it: the tables are processed one at a time in list order,
  and for each table the steps resolve, fetch, load, verify all happen, in this order, none
  skipped. When the fetch finds no new row the code returns from the load at once: it issues
  neither an insert nor the verifying query, so the calls of a completed run are the first
  watermark query and the fetch only.
\<close>

theorem no_new_rows_no_verification:
  "returned (main in_step [''t''] ''timestamp'') = Some VNone
   \<and> calls (final (main in_step [''t''] ''timestamp''))
       = [Create_engine, Connect, Select_max ''t'' ''timestamp'',
          Select_newer ''t'' ''timestamp'' (VTime 20)]
   \<and> \<not> every_step [''t''] ''timestamp'' (drop 2 (calls (final (main in_step [''t''] ''timestamp''))))"
  by (simp add: example_defs etl_defs sql_defs world_defs Let_def)

text \<open>
  C8 as amended: in a run that completes, after the engine and the connection are set up the
  tables are processed one at a time in exactly the list order, and the run makes no other
  call than these: for each table in turn the watermark query, then the fetch that this
  watermark asks for, and then, exactly when the frame of the fetched rows is not empty, the
  insert of all its rows followed by the second watermark query; when the frame is empty,
  neither of the two. Each table finds the destination as the tables before it left it.
\<close>

theorem tables_in_list_order:
  assumes "main w tables c = Return r w'"
  shows "calls w' = calls w @ [Create_engine, Connect]
                    @ calls_of_run (source_db w) (dest_db w) tables c"
proof -
  from assms obtain u1 wa u2 wb where
    a: "create_engine_for_other_postgres w = Return u1 wa"
    and b: "connect_to_postgres wa = Return u2 wb"
    and l: "main_loop wb tables c = Return r w'"
    by (auto simp: main_def and_then_Return_iff)
  from a b have wb: "wb = called Connect (called Create_engine w)"
    by (auto simp: create_engine_for_other_postgres_def connect_to_postgres_def Let_def
        split: if_splits)
  from main_loop_calls [OF l] wb show ?thesis by simp
qed

text \<open>
  The amended C8 at a run that takes the same table twice: the first time two rows are
  fetched, inserted and the watermark read again; the second time the watermark is 20, the
  filtered fetch finds nothing, and no insert or second query follows.
\<close>

theorem tables_in_list_order_witness:
  "returned (main three_tables [''a'', ''a''] ''timestamp'') = Some VNone
   \<and> calls (final (main three_tables [''a'', ''a''] ''timestamp''))
       = calls three_tables @ [Create_engine, Connect]
         @ calls_of_run (source_db three_tables) (dest_db three_tables) [''a'', ''a''] ''timestamp''
   \<and> calls_of_run (source_db three_tables) (dest_db three_tables) [''a'', ''a''] ''timestamp''
       = [Select_max ''a'' ''timestamp'', Select_all ''a'', To_sql ''a'' 2,
          Select_max ''a'' ''timestamp'',
          Select_max ''a'' ''timestamp'', Select_newer ''a'' ''timestamp'' (VTime 20)]"
proof -
  define w' where "w' = final (main three_tables [''a'', ''a''] ''timestamp'')"
  have a: "main three_tables [''a'', ''a''] ''timestamp'' = Return VNone w'"
    unfolding w'_def by (simp add: example_defs etl_defs sql_defs world_defs Let_def)
  have b: "calls_of_run (source_db three_tables) (dest_db three_tables) [''a'', ''a''] ''timestamp''
       = [Select_max ''a'' ''timestamp'', Select_all ''a'', To_sql ''a'' 2,
          Select_max ''a'' ''timestamp'',
          Select_max ''a'' ''timestamp'', Select_newer ''a'' ''timestamp'' (VTime 20)]"
    by (simp add: example_defs sql_defs fetch_call_def df_empty_def DataFrame_def
        float_column_def Let_def)
  from tables_in_list_order [OF a] b show ?thesis unfolding a by simp
qed

section \<open>C4: no watermark\<close>

lemma float64_of_small_int: "nat \<bar>n\<bar> < 2 ^ 53 \<Longrightarrow> float64_of_int n = n"
  by (simp add: float64_of_int_def Let_def)

lemma frame_row_exact:
  assumes "list_all (\<lambda>x. as_float x = x) r"
  shows "map (\<lambda>(j, x). if p j then as_float x else x) (enumerate 0 r) = r"
proof -
  have "map (\<lambda>(j, x). if p j then as_float x else x) (enumerate 0 r) = map snd (enumerate 0 r)"
    using assms by (intro map_cong) (auto simp: list_all_iff in_set_enumerate_eq)
  then show ?thesis by simp
qed

lemma DataFrame_exact:
  assumes "float_exact data"
  shows "DataFrame data cols = \<lparr>df_columns = cols, df_data = data\<rparr>"
proof -
  have "map (\<lambda>r. map (\<lambda>(j, x). if float_column (map (\<lambda>r. cell r j) data) then as_float x else x)
                    (enumerate 0 r)) data = map (\<lambda>r. r) data"
    using assms by (intro map_cong) (auto simp: float_exact_def list_all_iff intro!: frame_row_exact)
  then show ?thesis by (simp add: DataFrame_def)
qed

lemma sql_append_existing:
  assumes "map_of db t = Some tb" and "sql_append db t df = Some db'"
  shows "map_of db' t
    = Some (tb\<lparr>rows := rows tb @ map (align (df_columns df) (columns tb)) (df_data df)\<rparr>)"
  using assms by (auto simp: sql_append_def update_conv' split: if_splits)

text \<open>
  When no value of the source table is changed by pandas, the sync of a table whose
  watermark is absent appends exactly the rows of the source table.
\<close>

lemma full_copy_of_exact_rows:
  assumes "text_select_max (dest_db w) t c = Some VNone"
    and "map_of (source_db w) t = Some stb"
    and "c \<in> set (columns stb)"
    and "float_exact (rows stb)"
    and "map_of (dest_db w) t = Some dtb"
    and "process_table w t c = Return r w'"
  shows "map_of (dest_db w') t
       = Some (dtb\<lparr>rows := rows dtb @ map (align (columns stb) (columns dtb)) (rows stb)\<rparr>)"
proof -
  from process_table_steps [OF assms(6)] assms(1,2) have
    k: "if df_empty (DataFrame (rows stb) (columns stb)) then dest_db w' = dest_db w
        else sql_append (dest_db w) t (DataFrame (rows stb) (columns stb)) = Some (dest_db w')"
    by (auto simp: sql_select_all_def split: if_splits)
  note ex = DataFrame_exact [OF assms(4), of "columns stb"]
  show ?thesis
  proof (cases "df_empty (DataFrame (rows stb) (columns stb))")
    case True
    with assms(3) have "rows stb = []" by auto
    with True k assms(5) show ?thesis by simp
  next
    case False
    with k have "sql_append (dest_db w) t (DataFrame (rows stb) (columns stb)) = Some (dest_db w')"
      by simp
    from sql_append_existing [OF assms(5) this] show ?thesis by (simp add: ex)
  qed
qed

text \<open>
  C4 states that with an absent watermark the fetch returns every row of the source table
  and the run copies all of them to the destination. The rows go through a pandas frame on
  their way. Here the destination table is empty, so the watermark is absent and the run is
  a full copy; the source column \<open>reading\<close> holds the integer 9007199254740993 in one row
  and NULL in the other, so pandas holds the column as floating point, and what the run
  writes to the destination for the first row is 9007199254740992: the row that arrives is
  not the row of the source.
\<close>

theorem full_copy_rounds_a_nullable_integer:
  "text_select_max (dest_db gauge_world) ''g'' ''timestamp'' = Some VNone
   \<and> sql_select_all (source_db gauge_world) ''g''
       = Some \<lparr>df_columns = [''id'', ''timestamp'', ''reading''],
               df_data = [[VInt 1, VTime 10, VInt 9007199254740993],
                          [VInt 2, VTime 20, VNone]]\<rparr>
   \<and> returned (main gauge_world [''g''] ''timestamp'') = Some VNone
   \<and> map_of (dest_db (final (main gauge_world [''g''] ''timestamp''))) ''g''
       = Some \<lparr>columns = [''id'', ''timestamp'', ''reading''],
               rows = [[VInt 1, VTime 10, VInt 9007199254740992],
                       [VInt 2, VTime 20, VNone]]\<rparr>"
  by (simp add: example_defs etl_defs sql_defs world_defs Let_def)

section \<open>C3: running twice\<close>

subsection \<open>Comparisons and the maximum\<close>

lemma sql_gt_null [simp]: "sql_gt x VNone = Some False"
  by (cases x) simp_all








subsection \<open>One table\<close>








subsection \<open>What a step leaves alone\<close>












subsection \<open>The whole list\<close>








end
